theory Spec2Isabelle
  imports Complex_Main "HOL-Library.Word"
begin

unbundle bit_operations_syntax

section \<open>Data model\<close>

text \<open>
  The image processor works on RGBA rasters held in a \<^verbatim>\<open>Uint8ClampedArray\<close>. A raster is
  modelled as the list of its pixels in row-major order, pixel \<open>idx\<close> standing for the four
  bytes \<^verbatim>\<open>data[4*idx] .. data[4*idx+3]\<close>. Palette colours are byte triples. JavaScript
  numbers are modelled as real numbers: rounding of doubles and of the \<^verbatim>\<open>Float32Array\<close>
  work buffer is not represented; where the source can produce \<^verbatim>\<open>NaN\<close> the model says so
  with an \<open>option\<close> (\<open>None\<close> is \<^verbatim>\<open>NaN\<close>).
\<close>

type_synonym byte = "8 word"
type_synonym rgb = "byte \<times> byte \<times> byte"
type_synonym pixel = "byte \<times> byte \<times> byte \<times> byte"
type_synonym triple = "real \<times> real \<times> real"

text \<open>A triple of numbers read from an array: \<open>None\<close> when the three reads gave
  \<^verbatim>\<open>undefined\<close> (or \<^verbatim>\<open>NaN\<close>).\<close>

type_synonym jsrgb = "triple option"

definition byteVal :: "byte \<Rightarrow> real" where
  "byteVal w = real (unat w)"

definition rgbVal :: "rgb \<Rightarrow> triple" where
  "rgbVal p = (case p of (r, g, b) \<Rightarrow> (byteVal r, byteVal g, byteVal b))"

text \<open>\<^verbatim>\<open>ToInt32\<close> of a finite number: truncate towards zero, then wrap to 32 bits.\<close>

definition jsTrunc :: "real \<Rightarrow> int" where
  "jsTrunc x = (if 0 \<le> x then \<lfloor>x\<rfloor> else \<lceil>x\<rceil>)"

definition toInt32 :: "real \<Rightarrow> 32 word" where
  "toInt32 x = word_of_int (jsTrunc x)"

text \<open>\<^verbatim>\<open>v >> 8\<close> on a number: \<^verbatim>\<open>ToInt32\<close>, then the sign-propagating shift.\<close>

definition shr8 :: "real \<Rightarrow> int" where
  "shr8 v = sint (toInt32 v) div 256"

text \<open>The remainder operator \<^verbatim>\<open>a % n\<close> on numbers (sign of the dividend).\<close>

definition jsRem :: "real \<Rightarrow> real \<Rightarrow> real" where
  "jsRem a n = a - n * of_int (jsTrunc (a / n))"

section \<open>Colour space conversions used by the matcher\<close>

text \<open>The sRGB linearisation, written inline three times in each of
  \<^verbatim>\<open>_rgbToLab\<close>, \<^verbatim>\<open>_rgbToOklab\<close> and \<^verbatim>\<open>_rgbToXyz\<close>.\<close>

definition srgbToLinear :: "real \<Rightarrow> real" where
  "srgbToLinear c = (if c > 0.04045 then ((c + 0.055) / 1.055) powr 2.4 else c / 12.92)"

definition labF :: "real \<Rightarrow> real" where
  "labF t = (if t > 0.008856 then t powr (1 / 3) else 7.787 * t + 16 / 116)"

definition rgbToLab :: "real \<Rightarrow> real \<Rightarrow> real \<Rightarrow> triple" where
  "rgbToLab r g b =
     (let x = srgbToLinear (r / 255); y = srgbToLinear (g / 255); z = srgbToLinear (b / 255);
          X = (x * 0.4124564 + y * 0.3575761 + z * 0.1804375) / 0.95047;
          Y = (x * 0.2126729 + y * 0.7151522 + z * 0.0721750) / 1.00000;
          Z = (x * 0.0193339 + y * 0.1191920 + z * 0.9503041) / 1.08883
      in (116 * labF Y - 16, 500 * (labF X - labF Y), 200 * (labF Y - labF Z)))"

definition rgbToHsv :: "real \<Rightarrow> real \<Rightarrow> real \<Rightarrow> triple" where
  "rgbToHsv r0 g0 b0 =
     (let r = r0 / 255; g = g0 / 255; b = b0 / 255;
          mx = max r (max g b); mn = min r (min g b);
          delta = mx - mn;
          s = (if mx = 0 then 0 else delta / mx);
          v = mx;
          h = (if delta \<noteq> 0
               then (let h1 = (if mx = r then jsRem ((g - b) / delta) 6
                               else if mx = g then (b - r) / delta + 2
                               else (r - g) / delta + 4) * 60
                     in if h1 < 0 then h1 + 360 else h1)
               else 0)
      in (h, s, v))"

definition rgbToOklab :: "real \<Rightarrow> real \<Rightarrow> real \<Rightarrow> triple" where
  "rgbToOklab r0 g0 b0 =
     (let r = srgbToLinear (r0 / 255); g = srgbToLinear (g0 / 255); b = srgbToLinear (b0 / 255);
          l = 0.4122214708 * r + 0.5363325363 * g + 0.0514459929 * b;
          m = 0.2119034982 * r + 0.6806995451 * g + 0.1073969566 * b;
          s = 0.0883024619 * r + 0.2817188376 * g + 0.6299787005 * b;
          l' = root 3 l; m' = root 3 m; s' = root 3 s
      in (0.2104542553 * l' + 0.7936177850 * m' - 0.0040720468 * s',
          1.9779984951 * l' - 2.4285922050 * m' + 0.4505937099 * s',
          0.0259040371 * l' + 0.7827717662 * m' - 0.8086757660 * s'))"

section \<open>The LAB cache\<close>

text \<open>
  \<^verbatim>\<open>_getLab\<close> memoises \<^verbatim>\<open>_rgbToLab\<close> in a \<^verbatim>\<open>Map\<close> keyed by
  \<^verbatim>\<open>(r << 16) | (g << 8) | b\<close>. A cached value is an array, hence always truthy, so the
  test \<^verbatim>\<open>!v\<close> is the test for a missing key. The function has no size check.
  A \<^verbatim>\<open>NaN\<close> argument has \<^verbatim>\<open>ToInt32\<close> zero and a conversion result of three
  \<^verbatim>\<open>NaN\<close>s.
\<close>

type_synonym labCache = "32 word \<rightharpoonup> triple option"

definition labKey :: "jsrgb \<Rightarrow> 32 word" where
  "labKey t = (case t of None \<Rightarrow> 0
               | Some (r, g, b) \<Rightarrow> push_bit 16 (toInt32 r) OR push_bit 8 (toInt32 g) OR toInt32 b)"

definition getLab :: "labCache \<Rightarrow> jsrgb \<Rightarrow> triple option \<times> labCache" where
  "getLab cache t =
     (case cache (labKey t) of
        Some v \<Rightarrow> (v, cache)
      | None \<Rightarrow> (let v = map_option (\<lambda>(r, g, b). rgbToLab r g b) t
                 in (v, cache(labKey t \<mapsto> v))))"

section \<open>Nearest palette colour\<close>

text \<open>A score is \<open>None\<close> when the source computes \<^verbatim>\<open>NaN\<close>; the running minimum
  \<^verbatim>\<open>bestDist\<close> is \<open>None\<close> while it is still \<^verbatim>\<open>Infinity\<close>.\<close>

definition lessBest :: "real \<Rightarrow> real option \<Rightarrow> bool" where
  "lessBest d bestDist = (case bestDist of None \<Rightarrow> True | Some e \<Rightarrow> d < e)"

definition rgbScore :: "jsrgb \<Rightarrow> rgb \<Rightarrow> real option" where
  "rgbScore t p =
     (case t of None \<Rightarrow> None
      | Some (r, g, b) \<Rightarrow>
         (case rgbVal p of (pr, pg, pb) \<Rightarrow>
            (let rmean = (pr + r) / 2;
                 rdiff = pr - r; gdiff = pg - g; bdiff = pb - b;
                 sm = of_int (shr8 ((512 + rmean) * rdiff * rdiff))
                      + 4 * gdiff * gdiff
                      + of_int (shr8 ((767 - rmean) * bdiff * bdiff))
             in if sm < 0 then None else Some (sqrt sm))))"

definition hsvScore :: "jsrgb \<Rightarrow> rgb \<Rightarrow> real option" where
  "hsvScore t p =
     (case t of None \<Rightarrow> None
      | Some (r, g, b) \<Rightarrow>
         (case rgbToHsv r g b of (ht, st, vt) \<Rightarrow>
          case rgbVal p of (pr, pg, pb) \<Rightarrow>
          case rgbToHsv pr pg pb of (hp, sp, vp) \<Rightarrow>
            (let dh = min \<bar>ht - hp\<bar> (360 - \<bar>ht - hp\<bar>) / 360
             in Some (dh * dh + (st - sp)\<^sup>2 + (vt - vp)\<^sup>2))))"

definition oklabScore :: "jsrgb \<Rightarrow> rgb \<Rightarrow> real option" where
  "oklabScore t p =
     (case t of None \<Rightarrow> None
      | Some (r, g, b) \<Rightarrow>
         (case rgbToOklab r g b of (lt, ta, tb) \<Rightarrow>
          case rgbVal p of (pr, pg, pb) \<Rightarrow>
          case rgbToOklab pr pg pb of (lp, ap, bp) \<Rightarrow>
            Some ((lt - lp)\<^sup>2 + (ta - ap)\<^sup>2 + (tb - bp)\<^sup>2)))"

text \<open>The LAB distance of \<^verbatim>\<open>findClosestPaletteColor\<close>, from the two LAB triples.\<close>

definition labDist :: "bool \<Rightarrow> real \<Rightarrow> triple option \<Rightarrow> triple option \<Rightarrow> real option" where
  "labDist enableChromaPenalty chromaPenaltyWeight tlab plab =
     (case tlab of None \<Rightarrow> None
      | Some (Lt, ta, tb) \<Rightarrow>
         (case plab of None \<Rightarrow> None
          | Some (Lp, ap, bp) \<Rightarrow>
             (let targetChroma = sqrt (ta * ta + tb * tb);
                  dst = (Lt - Lp)\<^sup>2 + (ta - ap)\<^sup>2 + (tb - bp)\<^sup>2;
                  candChroma = sqrt (ap * ap + bp * bp)
              in if enableChromaPenalty \<and> targetChroma > 20 \<and> candChroma < targetChroma
                 then Some (dst + (targetChroma - candChroma)\<^sup>2 * chromaPenaltyWeight)
                 else Some dst)))"

text \<open>The scan \<^verbatim>\<open>for (const [pr, pg, pb] of normPalette)\<close> with its update
  \<^verbatim>\<open>if (dist < bestDist) { bestDist = dist; best = [pr, pg, pb]; }\<close>. The score may use
  and extend the LAB cache, which is threaded through. There is no early exit.\<close>

fun scanPalette ::
  "(labCache \<Rightarrow> rgb \<Rightarrow> real option \<times> labCache) \<Rightarrow> rgb list \<Rightarrow> rgb option \<Rightarrow> real option
     \<Rightarrow> labCache \<Rightarrow> rgb option \<times> labCache" where
  "scanPalette score [] best bestDist cache = (best, cache)"
| "scanPalette score (p # ps) best bestDist cache =
     (case score cache p of
        (None, cache') \<Rightarrow> scanPalette score ps best bestDist cache'
      | (Some d, cache') \<Rightarrow>
          if lessBest d bestDist then scanPalette score ps (Some p) (Some d) cache'
          else scanPalette score ps best bestDist cache')"

definition pureScore :: "(rgb \<Rightarrow> real option) \<Rightarrow> labCache \<Rightarrow> rgb \<Rightarrow> real option \<times> labCache" where
  "pureScore f cache p = (f p, cache)"

definition labScore ::
  "bool \<Rightarrow> real \<Rightarrow> triple option \<Rightarrow> labCache \<Rightarrow> rgb \<Rightarrow> real option \<times> labCache" where
  "labScore enableChromaPenalty chromaPenaltyWeight tlab cache p =
     (case getLab cache (Some (rgbVal p)) of
        (plab, cache') \<Rightarrow> (labDist enableChromaPenalty chromaPenaltyWeight tlab plab, cache'))"

definition orBlack :: "rgb option \<Rightarrow> rgb" where
  "orBlack best = (case best of None \<Rightarrow> (0, 0, 0) | Some p \<Rightarrow> p)"

text \<open>
  \<^verbatim>\<open>findClosestPaletteColor(r, g, b, palette, algorithm, options)\<close>. The palette argument
  is \<open>None\<close> when it is missing (\<^verbatim>\<open>undefined\<close> or \<^verbatim>\<open>null\<close>). The algorithm is the
  source's string: anything other than \<^verbatim>\<open>'rgb'\<close>, \<^verbatim>\<open>'hsv'\<close> and \<^verbatim>\<open>'oklab'\<close> takes
  the LAB branch. The result is the chosen triple and the LAB cache after the call.
\<close>

definition findClosestPaletteColor ::
  "labCache \<Rightarrow> jsrgb \<Rightarrow> rgb list option \<Rightarrow> string \<Rightarrow> bool \<Rightarrow> real \<Rightarrow> rgb \<times> labCache" where
  "findClosestPaletteColor cache t palette algorithm enableChromaPenalty chromaPenaltyWeight =
     (case palette of
        None \<Rightarrow> ((0, 0, 0), cache)
      | Some normPalette \<Rightarrow>
          if normPalette = [] then ((0, 0, 0), cache)
          else if algorithm = ''rgb'' then
            (case scanPalette (pureScore (rgbScore t)) normPalette (Some (0, 0, 0)) None cache of
               (best, cache') \<Rightarrow> (orBlack best, cache'))
          else if algorithm = ''hsv'' then
            (case scanPalette (pureScore (hsvScore t)) normPalette None None cache of
               (best, cache') \<Rightarrow> (orBlack best, cache'))
          else if algorithm = ''oklab'' then
            (case scanPalette (pureScore (oklabScore t)) normPalette None None cache of
               (best, cache') \<Rightarrow> (orBlack best, cache'))
          else
            (case getLab cache t of
               (tlab, cache1) \<Rightarrow>
                 (case scanPalette (labScore enableChromaPenalty chromaPenaltyWeight tlab)
                         normPalette None None cache1 of
                    (best, cache') \<Rightarrow> (orBlack best, cache'))))"

section \<open>Options and processor state\<close>

text \<open>
  The option objects of the source are destructured with defaults; the model takes a record
  with every field present. \<^verbatim>\<open>method\<close> and \<^verbatim>\<open>strength\<close> are separate arguments of
  the dithering functions.
\<close>

record options =
  exactMatch :: bool
  algorithm :: string
  enableChromaPenalty :: bool
  chromaPenaltyWeight :: real
  paintTransparentPixels :: bool
  paintWhitePixels :: bool
  transparencyThreshold :: real
  whiteThreshold :: real

text \<open>The defaults: \<^verbatim>\<open>TRANSPARENCY_THRESHOLD = 128\<close>, \<^verbatim>\<open>WHITE_THRESHOLD = 230\<close>.\<close>

definition defaultOptions :: options where
  "defaultOptions =
     \<lparr>exactMatch = False, algorithm = ''lab'', enableChromaPenalty = False,
      chromaPenaltyWeight = 0.15, paintTransparentPixels = False, paintWhitePixels = True,
      transparencyThreshold = 128, whiteThreshold = 230\<rparr>"

record paletteEntry =
  entryId :: int
  entryRgb :: rgb

record matchResult =
  resId :: "int option"
  resRgb :: triple

text \<open>The cache key of \<^verbatim>\<open>resolveColor\<close> is a template string over the target, the
  algorithm, the penalty flag, the penalty weight and the match mode; the model keeps the
  five components. The palette is not part of the key.\<close>

type_synonym cacheKey = "triple \<times> string \<times> bool \<times> real \<times> bool"

record processor =
  colorCache :: "cacheKey \<rightharpoonup> matchResult"
  labCache :: labCache

definition emptyLabCache :: labCache where
  "emptyLabCache = Map.empty"

definition newProcessor :: processor where
  "newProcessor = \<lparr>colorCache = Map.empty, labCache = emptyLabCache\<rparr>"

definition clearCaches :: "processor \<Rightarrow> processor" where
  "clearCaches st = st\<lparr>colorCache := Map.empty, labCache := emptyLabCache\<rparr>"

definition isWhitePixel :: "real \<Rightarrow> real \<Rightarrow> real \<Rightarrow> real \<Rightarrow> bool" where
  "isWhitePixel r g b threshold = (r \<ge> threshold \<and> g \<ge> threshold \<and> b \<ge> threshold)"

section \<open>resolveColor\<close>

definition sentinel :: "triple \<Rightarrow> matchResult" where
  "sentinel targetRgb = \<lparr>resId = None, resRgb = targetRgb\<rparr>"

definition entryResult :: "paletteEntry \<Rightarrow> matchResult" where
  "entryResult c = \<lparr>resId = Some (entryId c), resRgb = rgbVal (entryRgb c)\<rparr>"

text \<open>The LAB distance of \<^verbatim>\<open>resolveColor\<close>: the penalty applies when
  \<^verbatim>\<open>penaltyWeight > 0 && targetChroma > 20\<close>.\<close>

definition labDistResolve :: "real \<Rightarrow> triple option \<Rightarrow> triple option \<Rightarrow> real option" where
  "labDistResolve penaltyWeight tlab plab =
     (case tlab of None \<Rightarrow> None
      | Some (Lt, ta, tb) \<Rightarrow>
         (case plab of None \<Rightarrow> None
          | Some (L2, a2, b2) \<Rightarrow>
             (let targetChroma = sqrt (ta * ta + tb * tb);
                  dL = Lt - L2; da = ta - a2; db = tb - b2;
                  dst = dL * dL + da * da + db * db;
                  candChroma = sqrt (a2 * a2 + b2 * b2);
                  cd = targetChroma - candChroma
              in if penaltyWeight > 0 \<and> targetChroma > 20 \<and> candChroma < targetChroma
                 then Some (dst + cd * cd * penaltyWeight)
                 else Some dst)))"

definition labScoreResolve ::
  "real \<Rightarrow> triple option \<Rightarrow> labCache \<Rightarrow> rgb \<Rightarrow> real option \<times> labCache" where
  "labScoreResolve penaltyWeight tlab cache p =
     (case getLab cache (Some (rgbVal p)) of
        (plab, cache') \<Rightarrow> (labDistResolve penaltyWeight tlab plab, cache'))"

text \<open>The two scans of \<^verbatim>\<open>resolveColor\<close>, which leave the loop at a zero distance:
  \<^verbatim>\<open>if (dist < bestScore) { ...; if (dist === 0) break; }\<close>.\<close>

fun scanEntries ::
  "(labCache \<Rightarrow> rgb \<Rightarrow> real option \<times> labCache) \<Rightarrow> paletteEntry list \<Rightarrow> int \<times> rgb \<Rightarrow> real option
     \<Rightarrow> labCache \<Rightarrow> (int \<times> rgb) \<times> labCache" where
  "scanEntries score [] best bestScore cache = (best, cache)"
| "scanEntries score (c # cs) best bestScore cache =
     (case score cache (entryRgb c) of
        (None, cache') \<Rightarrow> scanEntries score cs best bestScore cache'
      | (Some d, cache') \<Rightarrow>
          if lessBest d bestScore
          then (if d = 0 then ((entryId c, entryRgb c), cache')
                else scanEntries score cs (entryId c, entryRgb c) (Some d) cache')
          else scanEntries score cs best bestScore cache')"

definition resolveColor ::
  "processor \<Rightarrow> triple \<Rightarrow> paletteEntry list option \<Rightarrow> options \<Rightarrow> matchResult \<times> processor" where
  "resolveColor st targetRgb availableColors opts =
     (case availableColors of
        None \<Rightarrow> (sentinel targetRgb, st)
      | Some cols \<Rightarrow>
          if cols = [] then (sentinel targetRgb, st)
          else
            (let cacheKey = (targetRgb, algorithm opts, enableChromaPenalty opts,
                             chromaPenaltyWeight opts, exactMatch opts)
             in case colorCache st cacheKey of
                  Some cached \<Rightarrow> (cached, st)
                | None \<Rightarrow>
                    if exactMatch opts then
                      (let result = (case find (\<lambda>c. rgbVal (entryRgb c) = targetRgb) cols of
                                       Some m \<Rightarrow> entryResult m
                                     | None \<Rightarrow> sentinel targetRgb)
                       in (result, st\<lparr>colorCache := (colorCache st)(cacheKey \<mapsto> result)\<rparr>))
                    else
                      (case (if (case targetRgb of (r, g, b) \<Rightarrow>
                                   isWhitePixel r g b (whiteThreshold opts))
                             then find (\<lambda>c. case rgbVal (entryRgb c) of (r, g, b) \<Rightarrow>
                                          isWhitePixel r g b (whiteThreshold opts)) cols
                             else None) of
                         Some whiteEntry \<Rightarrow>
                           (let result = entryResult whiteEntry
                            in (result, st\<lparr>colorCache := (colorCache st)(cacheKey \<mapsto> result)\<rparr>))
                       | None \<Rightarrow>
                           (let first = (entryId (hd cols), entryRgb (hd cols));
                                (best, lc) =
                                  (if algorithm opts = ''legacy''
                                   then scanEntries (pureScore (rgbScore (Some targetRgb)))
                                          cols first None (labCache st)
                                   else (case getLab (labCache st) (Some targetRgb) of
                                           (tlab, lc1) \<Rightarrow>
                                             scanEntries
                                               (labScoreResolve
                                                  (if enableChromaPenalty opts
                                                   then chromaPenaltyWeight opts else 0) tlab)
                                               cols first None lc1));
                                result = \<lparr>resId = Some (fst best), resRgb = rgbVal (snd best)\<rparr>;
                                cc = (colorCache st)(cacheKey \<mapsto> result)
                            in (result,
                                st\<lparr>colorCache := (if card (dom cc) > 20000 then Map.empty else cc),
                                   labCache := lc\<rparr>)))))"

section \<open>Repeated lookups\<close>

text \<open>A run of \<^verbatim>\<open>_getLab\<close> calls on a list of byte colours, each call on the cache the
  previous one left.\<close>

definition getLabMany :: "labCache \<Rightarrow> rgb list \<Rightarrow> labCache" where
  "getLabMany c ts = foldl (\<lambda>c t. snd (getLab c (Some (rgbVal t)))) c ts"

text \<open>The first \<open>n\<close> colours \<open>(k div 256, k mod 256, 0)\<close>.\<close>

definition manyColors :: "nat \<Rightarrow> rgb list" where
  "manyColors n = map (\<lambda>k. (of_nat (k div 256), of_nat (k mod 256), 0)) [0..<n]"

section \<open>Quantization and dithering\<close>

text \<open>
  The three quantizers return \<^verbatim>\<open>{ data, totalValidPixels }\<close>; the model adds the LAB
  cache they leave behind. \<^verbatim>\<open>getPixel\<close> reads the four bytes of pixel \<open>idx\<close>, which
  are \<^verbatim>\<open>undefined\<close> past the end of the array; a write past the end of a typed array is
  dropped, as \<open>xs[i := v]\<close> is.
\<close>

record quantized =
  data :: "pixel list"
  totalValidPixels :: nat
  labAfter :: labCache

definition getPixel :: "pixel list \<Rightarrow> nat \<Rightarrow> pixel option" where
  "getPixel d idx = (if idx < length d then Some (d ! idx) else None)"

subsection \<open>applySimpleQuantization\<close>

definition quantizePixel :: "rgb list option \<Rightarrow> options \<Rightarrow> nat \<Rightarrow> quantized \<Rightarrow> quantized" where
  "quantizePixel palette opts i s =
     (case data s ! i of (r, g, b, a) \<Rightarrow>
        (let isTransparent = byteVal a < transparencyThreshold opts;
             isEligible = ((paintTransparentPixels opts \<or> \<not> isTransparent)
                           \<and> (paintWhitePixels opts
                                \<or> \<not> isWhitePixel (byteVal r) (byteVal g) (byteVal b)
                                       (whiteThreshold opts)))
         in if \<not> isEligible then s\<lparr>data := (data s)[i := (r, g, b, 0)]\<rparr>
            else if paintTransparentPixels opts \<and> isTransparent
            then s\<lparr>data := (data s)[i := (0, 0, 0, 0)],
                   totalValidPixels := totalValidPixels s + 1\<rparr>
            else (case findClosestPaletteColor (labAfter s)
                         (Some (byteVal r, byteVal g, byteVal b)) palette (algorithm opts)
                         (enableChromaPenalty opts) (chromaPenaltyWeight opts) of
                    ((nr, ng, nb), cache') \<Rightarrow>
                      s\<lparr>data := (data s)[i := (nr, ng, nb, 255)],
                        totalValidPixels := totalValidPixels s + 1,
                        labAfter := cache'\<rparr>)))"

text \<open>The loop \<^verbatim>\<open>for (let i = 0; i < data.length; i += 4)\<close> visits every pixel
  of the array; \<open>width\<close> and \<open>height\<close> are not used.\<close>

definition applySimpleQuantization ::
  "labCache \<Rightarrow> pixel list \<Rightarrow> nat \<Rightarrow> nat \<Rightarrow> rgb list option \<Rightarrow> options \<Rightarrow> quantized" where
  "applySimpleQuantization cache imageData width height palette opts =
     fold (quantizePixel palette opts) [0..<length imageData]
       \<lparr>data = imageData, totalValidPixels = 0, labAfter = cache\<rparr>"

subsection \<open>Ordered dithering\<close>

definition getBayerMatrix :: "string \<Rightarrow> real list list option" where
  "getBayerMatrix method =
     (if method = ''bayer2'' then Some [[0/4, 2/4], [3/4, 1/4]]
      else if method = ''bayer4'' then Some
        [[0/16, 8/16, 2/16, 10/16],
         [12/16, 4/16, 14/16, 6/16],
         [3/16, 11/16, 1/16, 9/16],
         [15/16, 7/16, 13/16, 5/16]]
      else if method = ''bayer8'' then Some
        [[0/64, 32/64, 8/64, 40/64, 2/64, 34/64, 10/64, 42/64],
         [48/64, 16/64, 56/64, 24/64, 50/64, 18/64, 58/64, 26/64],
         [12/64, 44/64, 4/64, 36/64, 14/64, 46/64, 6/64, 38/64],
         [60/64, 28/64, 52/64, 20/64, 62/64, 30/64, 54/64, 22/64],
         [3/64, 35/64, 11/64, 43/64, 1/64, 33/64, 9/64, 41/64],
         [51/64, 19/64, 59/64, 27/64, 49/64, 17/64, 57/64, 25/64],
         [15/64, 47/64, 7/64, 39/64, 13/64, 45/64, 5/64, 37/64],
         [63/64, 31/64, 55/64, 23/64, 61/64, 29/64, 53/64, 21/64]]
      else None)"

text \<open>
  Reading the threshold of a method that is neither a Bayer matrix nor \<^verbatim>\<open>'random'\<close>
  indexes \<^verbatim>\<open>null\<close> and throws. \<^verbatim>\<open>Math.random()\<close> is an argument of the model: \<open>rnd k\<close>
  is the value of the \<open>k\<close>-th call, and the state counts the calls made.
\<close>

datatype error = TypeError

definition ditherThreshold ::
  "(nat \<Rightarrow> real) \<Rightarrow> string \<Rightarrow> nat \<Rightarrow> nat \<Rightarrow> nat \<Rightarrow> error + real \<times> nat" where
  "ditherThreshold rnd method x y draws =
     (if method = ''random'' then Inr (rnd draws, draws + 1)
      else (case getBayerMatrix method of
              None \<Rightarrow> Inl TypeError
            | Some matrix \<Rightarrow>
                Inr (matrix ! (y mod length matrix) ! (x mod length matrix), draws)))"

definition clamp255 :: "real \<Rightarrow> real" where
  "clamp255 v = max 0 (min 255 v)"

definition orderedPixel ::
  "(nat \<Rightarrow> real) \<Rightarrow> nat \<Rightarrow> rgb list option \<Rightarrow> string \<Rightarrow> real \<Rightarrow> options \<Rightarrow> nat \<times> nat
     \<Rightarrow> quantized \<times> nat \<Rightarrow> error + quantized \<times> nat" where
  "orderedPixel rnd width palette method strength opts xy sd =
     (case xy of (x, y) \<Rightarrow> case sd of (s, draws) \<Rightarrow>
      (let i = y * width + x in
       case getPixel (data s) i of
         None \<Rightarrow>
           \<comment> \<open>every comparison with \<^verbatim>\<open>undefined\<close> is false: the pixel counts as opaque
               and not white, and its perturbed colour is \<^verbatim>\<open>NaN\<close>\<close>
           (case ditherThreshold rnd method x y draws of
              Inl e \<Rightarrow> Inl e
            | Inr (threshold, draws') \<Rightarrow>
                (case findClosestPaletteColor (labAfter s) None palette (algorithm opts)
                        (enableChromaPenalty opts) (chromaPenaltyWeight opts) of
                   (p, cache') \<Rightarrow>
                     Inr (s\<lparr>totalValidPixels := totalValidPixels s + 1, labAfter := cache'\<rparr>,
                          draws')))
       | Some (r, g, b, a) \<Rightarrow>
           (let isTransparent = byteVal a < transparencyThreshold opts;
                isEligible = ((paintTransparentPixels opts \<or> \<not> isTransparent)
                              \<and> (paintWhitePixels opts
                                   \<or> \<not> isWhitePixel (byteVal r) (byteVal g) (byteVal b)
                                          (whiteThreshold opts)))
            in if \<not> isEligible then Inr (s\<lparr>data := (data s)[i := (r, g, b, 0)]\<rparr>, draws)
               else if paintTransparentPixels opts \<and> isTransparent
               then Inr (s\<lparr>data := (data s)[i := (0, 0, 0, 0)],
                           totalValidPixels := totalValidPixels s + 1\<rparr>, draws)
               else
                 (case ditherThreshold rnd method x y draws of
                    Inl e \<Rightarrow> Inl e
                  | Inr (threshold, draws') \<Rightarrow>
                      (let noise = (threshold - 0.5) * 64 * strength;
                           nr = clamp255 (byteVal r + noise);
                           ng = clamp255 (byteVal g + noise);
                           nb = clamp255 (byteVal b + noise)
                       in case findClosestPaletteColor (labAfter s) (Some (nr, ng, nb)) palette
                                 (algorithm opts) (enableChromaPenalty opts)
                                 (chromaPenaltyWeight opts) of
                            ((pr, pg, pb), cache') \<Rightarrow>
                              Inr (s\<lparr>data := (data s)[i := (pr, pg, pb, 255)],
                                     totalValidPixels := totalValidPixels s + 1,
                                     labAfter := cache'\<rparr>, draws'))))))"

text \<open>The pixels in the order of \<^verbatim>\<open>for (y ...) for (x ...)\<close>.\<close>

definition coords :: "nat \<Rightarrow> nat \<Rightarrow> (nat \<times> nat) list" where
  "coords width height = concat (map (\<lambda>y. map (\<lambda>x. (x, y)) [0..<width]) [0..<height])"

fun orderedLoop ::
  "(nat \<times> nat \<Rightarrow> quantized \<times> nat \<Rightarrow> error + quantized \<times> nat) \<Rightarrow> (nat \<times> nat) list
     \<Rightarrow> quantized \<times> nat \<Rightarrow> error + quantized \<times> nat" where
  "orderedLoop step [] sd = Inr sd"
| "orderedLoop step (xy # rest) sd =
     (case step xy sd of Inl e \<Rightarrow> Inl e | Inr sd' \<Rightarrow> orderedLoop step rest sd')"

definition applyOrderedDither ::
  "(nat \<Rightarrow> real) \<Rightarrow> labCache \<Rightarrow> pixel list \<Rightarrow> nat \<Rightarrow> nat \<Rightarrow> rgb list option \<Rightarrow> string \<Rightarrow> real
     \<Rightarrow> options \<Rightarrow> error + quantized" where
  "applyOrderedDither rnd cache imageData width height palette method strength opts =
     (case orderedLoop (orderedPixel rnd width palette method strength opts)
             (coords width height)
             (\<lparr>data = imageData, totalValidPixels = 0, labAfter = cache\<rparr>, 0) of
        Inl e \<Rightarrow> Inl e
      | Inr (s, draws) \<Rightarrow> Inr s)"

subsection \<open>Error diffusion\<close>

record kernelOffset =
  dx :: int
  dy :: int
  weight :: real

record kernel =
  divisor :: real
  offsets :: "kernelOffset list"

definition off :: "int \<Rightarrow> int \<Rightarrow> real \<Rightarrow> kernelOffset" where
  "off x y w = \<lparr>dx = x, dy = y, weight = w\<rparr>"

definition floydKernel :: kernel where
  "floydKernel = \<lparr>divisor = 16, offsets = [off 1 0 7, off (-1) 1 3, off 0 1 5, off 1 1 1]\<rparr>"

definition getDitherKernel :: "string \<Rightarrow> kernel" where
  "getDitherKernel method =
     (if method = ''floyd'' then floydKernel
      else if method = ''atkinson'' then
        \<lparr>divisor = 8, offsets = [off 1 0 1, off 2 0 1, off (-1) 1 1, off 0 1 1, off 1 1 1,
                                 off 0 2 1]\<rparr>
      else if method = ''jarvis'' then
        \<lparr>divisor = 48, offsets = [off 1 0 7, off 2 0 5, off (-2) 1 3, off (-1) 1 5, off 0 1 7,
                                  off 1 1 5, off 2 1 3, off (-2) 2 1, off (-1) 2 3, off 0 2 5,
                                  off 1 2 3, off 2 2 1]\<rparr>
      else if method = ''stucki'' then
        \<lparr>divisor = 42, offsets = [off 1 0 8, off 2 0 4, off (-2) 1 2, off (-1) 1 4, off 0 1 8,
                                  off 1 1 4, off 2 1 2, off (-2) 2 1, off (-1) 2 2, off 0 2 4,
                                  off 1 2 2, off 2 2 1]\<rparr>
      else if method = ''burkes'' then
        \<lparr>divisor = 32, offsets = [off 1 0 8, off 2 0 4, off (-2) 1 2, off (-1) 1 4, off 0 1 8,
                                  off 1 1 4, off 2 1 2]\<rparr>
      else if method = ''sierra'' then
        \<lparr>divisor = 32, offsets = [off 1 0 5, off 2 0 3, off (-2) 1 2, off (-1) 1 4, off 0 1 5,
                                  off 1 1 4, off 2 1 2, off (-1) 2 2, off 0 2 3, off 1 2 2]\<rparr>
      else floydKernel)"

text \<open>
  The work buffer holds one colour per pixel (three floats in the source); a cell is
  \<open>None\<close> when its three values are \<^verbatim>\<open>NaN\<close>, which is what the initialisation stores
  for a pixel past the end of the data. Both buffers are overwritten in full by the
  initialisation, so a buffer kept from an earlier call is the same as a fresh one.
\<close>

definition eligibleAt :: "pixel list \<Rightarrow> options \<Rightarrow> nat \<Rightarrow> bool" where
  "eligibleAt d opts idx =
     (case getPixel d idx of
        None \<Rightarrow> paintTransparentPixels opts
      | Some (r, g, b, a) \<Rightarrow>
          (paintTransparentPixels opts \<or> byteVal a \<ge> transparencyThreshold opts)
          \<and> (paintWhitePixels opts
               \<or> \<not> isWhitePixel (byteVal r) (byteVal g) (byteVal b) (whiteThreshold opts)))"

definition initEligible :: "pixel list \<Rightarrow> options \<Rightarrow> nat \<Rightarrow> bool list" where
  "initEligible d opts n = map (eligibleAt d opts) [0..<n]"

definition initWork :: "pixel list \<Rightarrow> nat \<Rightarrow> jsrgb list" where
  "initWork d n =
     map (\<lambda>idx. map_option (\<lambda>(r, g, b, a). (byteVal r, byteVal g, byteVal b)) (getPixel d idx))
       [0..<n]"

text \<open>\<^verbatim>\<open>if (!isEligible) data[i4 + 3] = 0\<close>, for the pixels below \<open>n\<close>.\<close>

definition initData :: "pixel list \<Rightarrow> options \<Rightarrow> nat \<Rightarrow> pixel list" where
  "initData d opts n =
     map (\<lambda>idx. case d ! idx of (r, g, b, a) \<Rightarrow>
                  if idx < n \<and> \<not> eligibleAt d opts idx then (r, g, b, 0) else (r, g, b, a))
       [0..<length d]"

definition diffuseChannel :: "real \<Rightarrow> real \<Rightarrow> real \<Rightarrow> real" where
  "diffuseChannel w e factor = min 255 (max 0 (w + e * factor))"

definition diffuse ::
  "nat \<Rightarrow> nat \<Rightarrow> bool list \<Rightarrow> int \<Rightarrow> int \<Rightarrow> triple option \<Rightarrow> real \<Rightarrow> jsrgb list \<Rightarrow> jsrgb list" where
  "diffuse width height eligible nx ny err factor work =
     (if nx < 0 \<or> nx \<ge> int width \<or> ny < 0 \<or> ny \<ge> int height then work
      else (let nidx = nat ny * width + nat nx in
            if \<not> eligible ! nidx then work
            else work[nidx :=
                   (case work ! nidx of
                      None \<Rightarrow> None
                    | Some (wr, wg, wb) \<Rightarrow>
                        (case err of
                           None \<Rightarrow> None
                         | Some (er, eg, eb) \<Rightarrow>
                             Some (diffuseChannel wr er factor, diffuseChannel wg eg factor,
                                   diffuseChannel wb eb factor)))]))"

text \<open>The loop over \<^verbatim>\<open>kernel.offsets\<close> for the pixel at \<open>(x, y)\<close>.\<close>

definition diffuseAll ::
  "nat \<Rightarrow> nat \<Rightarrow> bool list \<Rightarrow> kernel \<Rightarrow> nat \<Rightarrow> nat \<Rightarrow> triple option \<Rightarrow> jsrgb list \<Rightarrow> jsrgb list" where
  "diffuseAll width height eligible k x y err work =
     fold (\<lambda>ko. diffuse width height eligible (int x + dx ko) (int y + dy ko) err
                 (weight ko / divisor k))
       (offsets k) work"

record diffusion = quantized +
  work :: "jsrgb list"

definition diffusePixel ::
  "nat \<Rightarrow> nat \<Rightarrow> bool list \<Rightarrow> kernel \<Rightarrow> rgb list option \<Rightarrow> options \<Rightarrow> nat \<times> nat
     \<Rightarrow> diffusion \<Rightarrow> diffusion" where
  "diffusePixel width height eligible k palette opts xy s =
     (case xy of (x, y) \<Rightarrow>
      (let idx = y * width + x in
       if \<not> eligible ! idx then s
       else
         (let t = work s ! idx;
              transparent = (case getPixel (data s) idx of
                               None \<Rightarrow> False
                             | Some (r, g, b, a) \<Rightarrow> byteVal a < transparencyThreshold opts)
          in if paintTransparentPixels opts \<and> transparent
             then s\<lparr>data := (data s)[idx := (0, 0, 0, 0)],
                    totalValidPixels := totalValidPixels s + 1\<rparr>
             else (case findClosestPaletteColor (labAfter s) t palette (algorithm opts)
                          (enableChromaPenalty opts) (chromaPenaltyWeight opts) of
                     ((nr, ng, nb), cache') \<Rightarrow>
                       (let err = map_option (\<lambda>(r0, g0, b0).
                                     (r0 - byteVal nr, g0 - byteVal ng, b0 - byteVal nb)) t
                        in s\<lparr>data := (data s)[idx := (nr, ng, nb, 255)],
                             totalValidPixels := totalValidPixels s + 1,
                             labAfter := cache',
                             work := diffuseAll width height eligible k x y err (work s)\<rparr>)))))"


section \<open>Dominant-colour resampling\<close>

text \<open>
  \<^verbatim>\<open>resampleDominant\<close> reads the source pixels of a block, counts them in a
  \<^verbatim>\<open>Uint32Array(4096)\<close> indexed by the three high nibbles of the colour, and keeps the
  bucket whose count first exceeded every count seen so far. A read past the end of the
  source data gives \<^verbatim>\<open>undefined\<close>, whose shift is 0. The counts wrap at \<open>2\<^sup>3\<^sup>2\<close> as
  the array does; \<^verbatim>\<open>bestCount\<close> is a number and starts at \<open>-1\<close>.
\<close>

definition bucketIndex :: "pixel option \<Rightarrow> 32 word" where
  "bucketIndex px =
     (case px of
        None \<Rightarrow> 0
      | Some (r, g, b, a) \<Rightarrow>
          push_bit 8 (ucast (drop_bit 4 r)) OR push_bit 4 (ucast (drop_bit 4 g))
            OR ucast (drop_bit 4 b))"

fun dominantScan :: "32 word list \<Rightarrow> (32 word \<Rightarrow> 32 word) \<Rightarrow> 32 word \<Rightarrow> int \<Rightarrow> 32 word" where
  "dominantScan [] counts bestIdx bestCount = bestIdx"
| "dominantScan (idx # rest) counts bestIdx bestCount =
     (let c = counts idx + 1
      in if uint c > bestCount then dominantScan rest (counts(idx := c)) idx (uint c)
         else dominantScan rest (counts(idx := c)) bestIdx bestCount)"

text \<open>The source pixels of the block of destination pixel \<open>(x, y)\<close>, in the order of the
  loops over \<open>yy\<close> and \<open>xx\<close>.\<close>

definition blockPixels :: "pixel list \<Rightarrow> nat \<Rightarrow> nat \<Rightarrow> nat \<Rightarrow> nat \<Rightarrow> nat \<Rightarrow> pixel option list" where
  "blockPixels srcData sw sh factor x y =
     (let sy0 = y * factor; sy1 = min sh (sy0 + factor);
          sx0 = x * factor; sx1 = min sw (sx0 + factor)
      in concat (map (\<lambda>yy. map (\<lambda>xx. getPixel srcData (yy * sw + xx)) [sx0..<sx1]) [sy0..<sy1]))"

text \<open>A store into a \<^verbatim>\<open>Uint8ClampedArray\<close> of an integer.\<close>

definition clampByte :: "int \<Rightarrow> byte" where
  "clampByte v = (if v < 0 then 0 else if v > 255 then 255 else word_of_int v)"

definition dominantPixel :: "32 word \<Rightarrow> pixel" where
  "dominantPixel bestIdx =
     (clampByte (uint (drop_bit 8 bestIdx AND 0xF) * 17),
      clampByte (uint (drop_bit 4 bestIdx AND 0xF) * 17),
      clampByte (uint (bestIdx AND 0xF) * 17),
      255)"

definition resampleDominant ::
  "pixel list \<Rightarrow> nat \<Rightarrow> nat \<Rightarrow> nat \<Rightarrow> nat \<Rightarrow> nat \<Rightarrow> pixel list" where
  "resampleDominant srcData sw sh dstW dstH factor =
     map (\<lambda>(x, y). dominantPixel
                     (dominantScan (map bucketIndex (blockPixels srcData sw sh factor x y))
                        (\<lambda>i. 0) 0 (- 1)))
       (coords dstW dstH)"

text \<open>The colour a bucket decodes to, from a colour in the bucket: each channel is its
  high nibble times 17.\<close>

definition representative :: "rgb \<Rightarrow> rgb" where
  "representative c = (case c of (r, g, b) \<Rightarrow> (drop_bit 4 r * 17, drop_bit 4 g * 17, drop_bit 4 b * 17))"

definition hasRgb :: "rgb \<Rightarrow> pixel option \<Rightarrow> bool" where
  "hasRgb c px = (case px of None \<Rightarrow> False | Some (r, g, b, a) \<Rightarrow> (r, g, b) = c)"

text \<open>More than half of the pixels of the block have the colour \<open>c\<close>.\<close>

definition strictMajority :: "rgb \<Rightarrow> pixel option list \<Rightarrow> bool" where
  "strictMajority c blk = (length blk < 2 * length (filter (hasRgb c) blk))"

text \<open>A 2 by 2 source: three pixels of colour \<open>(100, 100, 100)\<close> and a black one.\<close>

definition greyBlock :: "pixel list" where
  "greyBlock = [(100, 100, 100, 255), (100, 100, 100, 255), (0, 0, 0, 255), (100, 100, 100, 255)]"

section \<open>XYZ and LUV conversions\<close>

text \<open>
  \<^verbatim>\<open>_luvToRgb\<close> divides by \<open>13 * l\<close> and by \<open>4 * vp\<close> without a guard, so its
  intermediate values can be infinite or \<^verbatim>\<open>NaN\<close>. They are modelled by \<open>jsnum\<close>:
  a finite number, an infinity with its sign (\<open>Inf True\<close> is \<open>+\<infinity>\<close>), or \<^verbatim>\<open>NaN\<close>.
  The arithmetic follows IEEE 754 on these values, without rounding; a zero is taken as
  \<open>+0\<close> where the sign of an infinity depends on it.
\<close>

datatype jsnum = Num real | Inf bool | NaN

fun jsAdd :: "jsnum \<Rightarrow> jsnum \<Rightarrow> jsnum" where
  "jsAdd (Num a) (Num b) = Num (a + b)"
| "jsAdd NaN _ = NaN"
| "jsAdd _ NaN = NaN"
| "jsAdd (Inf s) (Num b) = Inf s"
| "jsAdd (Num a) (Inf s) = Inf s"
| "jsAdd (Inf s) (Inf s') = (if s = s' then Inf s else NaN)"

fun jsNeg :: "jsnum \<Rightarrow> jsnum" where
  "jsNeg (Num a) = Num (- a)"
| "jsNeg (Inf s) = Inf (\<not> s)"
| "jsNeg NaN = NaN"

definition jsSub :: "jsnum \<Rightarrow> jsnum \<Rightarrow> jsnum" where
  "jsSub a b = jsAdd a (jsNeg b)"

fun jsMul :: "jsnum \<Rightarrow> jsnum \<Rightarrow> jsnum" where
  "jsMul (Num a) (Num b) = Num (a * b)"
| "jsMul NaN _ = NaN"
| "jsMul _ NaN = NaN"
| "jsMul (Inf s) (Num b) = (if b = 0 then NaN else Inf (s = (0 < b)))"
| "jsMul (Num a) (Inf s) = (if a = 0 then NaN else Inf (s = (0 < a)))"
| "jsMul (Inf s) (Inf s') = Inf (s = s')"

fun jsDiv :: "jsnum \<Rightarrow> jsnum \<Rightarrow> jsnum" where
  "jsDiv (Num a) (Num b) =
     (if b = 0 then (if a = 0 then NaN else Inf (0 < a)) else Num (a / b))"
| "jsDiv NaN _ = NaN"
| "jsDiv _ NaN = NaN"
| "jsDiv (Inf s) (Num b) = Inf (s = (0 \<le> b))"
| "jsDiv (Num a) (Inf s) = Num 0"
| "jsDiv (Inf s) (Inf s') = NaN"

text \<open>\<^verbatim>\<open>a > c\<close> for a finite \<open>c\<close>; false for \<^verbatim>\<open>NaN\<close>.\<close>

fun jsGt :: "jsnum \<Rightarrow> real \<Rightarrow> bool" where
  "jsGt (Num a) c = (a > c)"
| "jsGt (Inf s) c = s"
| "jsGt NaN c = False"

text \<open>\<^verbatim>\<open>Math.min(c, a)\<close> and \<^verbatim>\<open>Math.max(c, a)\<close> for a finite \<open>c\<close>.\<close>

fun jsMin :: "real \<Rightarrow> jsnum \<Rightarrow> jsnum" where
  "jsMin c (Num a) = Num (min c a)"
| "jsMin c (Inf s) = (if s then Num c else Inf False)"
| "jsMin c NaN = NaN"

fun jsMax :: "real \<Rightarrow> jsnum \<Rightarrow> jsnum" where
  "jsMax c (Num a) = Num (max c a)"
| "jsMax c (Inf s) = (if s then Inf True else Num c)"
| "jsMax c NaN = NaN"

text \<open>\<^verbatim>\<open>Math.pow(a, e)\<close> for a positive exponent, used on bases above 0.0031308 only.\<close>

fun jsPow :: "jsnum \<Rightarrow> real \<Rightarrow> jsnum" where
  "jsPow (Num a) e = (if a < 0 then NaN else Num (a powr e))"
| "jsPow (Inf s) e = (if s then Inf True else NaN)"
| "jsPow NaN e = NaN"

text \<open>\<^verbatim>\<open>Math.round\<close>: the integer nearest to the argument, halves rounded up. The result
  is \<open>None\<close> where the source returns \<^verbatim>\<open>NaN\<close> or an infinity.\<close>

fun jsRound :: "jsnum \<Rightarrow> int option" where
  "jsRound (Num a) = Some \<lfloor>a + 1 / 2\<rfloor>"
| "jsRound (Inf s) = None"
| "jsRound NaN = None"

definition rgbToXyz :: "real \<Rightarrow> real \<Rightarrow> real \<Rightarrow> triple" where
  "rgbToXyz r g b =
     (let x = srgbToLinear (r / 255); y = srgbToLinear (g / 255); z = srgbToLinear (b / 255)
      in (x * 0.4124564 + y * 0.3575761 + z * 0.1804375,
          x * 0.2126729 + y * 0.7151522 + z * 0.0721750,
          x * 0.0193339 + y * 0.1191920 + z * 0.9503041))"

definition linearToSrgb :: "jsnum \<Rightarrow> jsnum" where
  "linearToSrgb c =
     (if jsGt c 0.0031308
      then jsSub (jsMul (Num 1.055) (jsPow c (1.0 / 2.4))) (Num 0.055)
      else jsMul (Num 12.92) c)"

definition toChannel :: "jsnum \<Rightarrow> int option" where
  "toChannel c = jsRound (jsMul (jsMax 0 (jsMin 1 c)) (Num 255))"

definition xyzToRgb :: "jsnum \<Rightarrow> jsnum \<Rightarrow> jsnum \<Rightarrow> int option \<times> int option \<times> int option" where
  "xyzToRgb x y z =
     (let r = jsAdd (jsAdd (jsMul x (Num 3.2404542)) (jsMul y (Num (- 1.5371385))))
                (jsMul z (Num (- 0.4985314)));
          g = jsAdd (jsAdd (jsMul x (Num (- 0.9692660))) (jsMul y (Num 1.8760108)))
                (jsMul z (Num 0.0415560));
          b = jsAdd (jsAdd (jsMul x (Num 0.0556434)) (jsMul y (Num (- 0.2040259))))
                (jsMul z (Num 1.0572252))
      in (toChannel (linearToSrgb r), toChannel (linearToSrgb g), toChannel (linearToSrgb b)))"

definition rgbToLuv :: "real \<Rightarrow> real \<Rightarrow> real \<Rightarrow> triple" where
  "rgbToLuv r g b =
     (case rgbToXyz r g b of (X, Y, Z) \<Rightarrow>
        (let Xn = 0.95047; Yn = 1.00000; Zn = 1.08883;
             yr = Y / Yn;
             L = (if yr > 0.008856 then 116 * yr powr (1 / 3) - 16 else 903.3 * yr);
             denom = X + 15 * Y + 3 * Z;
             denomN = Xn + 15 * Yn + 3 * Zn;
             up = (if denom = 0 then 0 else (4 * X) / denom);
             vp = (if denom = 0 then 0 else (9 * Y) / denom);
             upN = (4 * Xn) / denomN;
             vpN = (9 * Yn) / denomN
         in (L, 13 * L * (up - upN), 13 * L * (vp - vpN))))"

definition luvToRgb :: "real \<Rightarrow> real \<Rightarrow> real \<Rightarrow> int option \<times> int option \<times> int option" where
  "luvToRgb l u v =
     (let Xn = 0.95047; Yn = 1.00000; Zn = 1.08883;
          upN = (4 * Xn) / (Xn + 15 * Yn + 3 * Zn);
          vpN = (9 * Yn) / (Xn + 15 * Yn + 3 * Zn);
          Y = (if l > 8 then Yn * ((l + 16) / 116) ^ 3 else Yn * l / 903.3);
          up = jsAdd (jsDiv (Num u) (Num (13 * l))) (Num upN);
          vp = jsAdd (jsDiv (Num v) (Num (13 * l))) (Num vpN);
          X = jsDiv (jsMul (Num (Y * 9)) up) (jsMul (Num 4) vp);
          Z = jsDiv (jsMul (Num Y)
                       (jsSub (jsSub (Num 12) (jsMul (Num 3) up)) (jsMul (Num 20) vp)))
                (jsMul (Num 4) vp)
      in xyzToRgb X (Num Y) Z)"

section \<open>Region simplification\<close>

















section \<open>Predicates of the statements\<close>


definition inByteRange :: "triple \<Rightarrow> bool" where
  "inByteRange t =
     (case t of (r, g, b) \<Rightarrow> 0 \<le> r \<and> r \<le> 255 \<and> 0 \<le> g \<and> g \<le> 255 \<and> 0 \<le> b \<and> b \<le> 255)"


text \<open>Every cell of the work buffer is a colour in \<open>[0, 255]\<^sup>3\<close>.\<close>

definition workCellOk :: "jsrgb \<Rightarrow> bool" where
  "workCellOk c = (case c of None \<Rightarrow> False | Some t \<Rightarrow> inByteRange t)"

text \<open>The state of the error-diffusion loop before its \<open>k\<close>-th pixel.\<close>

definition diffusionBefore ::
  "labCache \<Rightarrow> pixel list \<Rightarrow> nat \<Rightarrow> nat \<Rightarrow> rgb list option \<Rightarrow> string \<Rightarrow> options \<Rightarrow> nat
     \<Rightarrow> diffusion" where
  "diffusionBefore cache imageData width height palette method opts k =
     fold (diffusePixel width height (initEligible imageData opts (width * height))
             (getDitherKernel method) palette opts)
       (take k (coords width height))
       \<lparr>data = initData imageData opts (width * height), totalValidPixels = 0,
        labAfter = cache, work = initWork imageData (width * height)\<rparr>"


text \<open>What a cell holds after it received the share \<open>factor\<close> of the error.\<close>

definition received :: "jsrgb \<Rightarrow> triple option \<Rightarrow> real \<Rightarrow> jsrgb" where
  "received cell err factor =
     (case cell of
        None \<Rightarrow> None
      | Some (wr, wg, wb) \<Rightarrow>
          (case err of
             None \<Rightarrow> None
           | Some (er, eg, eb) \<Rightarrow>
               Some (diffuseChannel wr er factor, diffuseChannel wg eg factor,
                     diffuseChannel wb eb factor)))"

definition orderedMethods :: "string set" where
  "orderedMethods = {''bayer2'', ''bayer4'', ''bayer8'', ''random''}"

text \<open>A source of random numbers that always returns 0, for the examples.\<close>

definition noRandom :: "nat \<Rightarrow> real" where
  "noRandom k = 0"






subsection \<open>Components of a raster\<close>













section \<open>Cache keys of byte colours\<close>

lemma jsTrunc_of_nat: "jsTrunc (real n) = int n"
  unfolding jsTrunc_def by (simp only: of_nat_0_le_iff if_True floor_of_nat)

lemma toInt32_byteVal: "toInt32 (byteVal w) = ucast w"
proof -
  have "(word_of_int (int (unat w)) :: 32 word) = ucast w" by simp
  then show ?thesis unfolding toInt32_def byteVal_def jsTrunc_of_nat .
qed

lemma labKey_bytes:
  "labKey (Some (rgbVal (r, g, b))) = push_bit 16 (ucast r) OR push_bit 8 (ucast g) OR ucast b"
  by (simp add: labKey_def rgbVal_def toInt32_byteVal)

lemma key_red: "ucast (drop_bit 16 (push_bit 16 (ucast (r::byte)) OR push_bit 8 (ucast (g::byte)) OR (ucast (b::byte) :: 32 word))) = r"
  by (rule bit_word_eqI) (auto simp: bit_simps dest: bit_imp_le_length)

lemma key_green: "ucast (drop_bit 8 (push_bit 16 (ucast (r::byte)) OR push_bit 8 (ucast (g::byte)) OR (ucast (b::byte) :: 32 word))) = g"
  by (rule bit_word_eqI) (auto simp: bit_simps dest: bit_imp_le_length)

lemma key_blue: "ucast (push_bit 16 (ucast (r::byte)) OR push_bit 8 (ucast (g::byte)) OR (ucast (b::byte) :: 32 word)) = b"
  by (rule bit_word_eqI) (auto simp: bit_simps dest: bit_imp_le_length)

lemma labKey_inj: "labKey (Some (rgbVal p)) = labKey (Some (rgbVal q)) \<Longrightarrow> p = q"
proof -
  obtain r g b where p: "p = (r, g, b)" by (cases p) auto
  obtain r' g' b' where q: "q = (r', g', b')" by (cases q) auto
  assume "labKey (Some (rgbVal p)) = labKey (Some (rgbVal q))"
  then have e: "push_bit 16 (ucast r) OR push_bit 8 (ucast g) OR (ucast b :: 32 word)
              = push_bit 16 (ucast r') OR push_bit 8 (ucast g') OR ucast b'"
    by (simp add: p q labKey_bytes)
  have "r = r'" using key_red[of r g b] key_red[of r' g' b'] e by simp
  moreover have "g = g'" using key_green[of r g b] key_green[of r' g' b'] e by simp
  moreover have "b = b'" using key_blue[of r g b] key_blue[of r' g' b'] e by simp
  ultimately show ?thesis by (simp add: p q)
qed

lemma dom_getLab: "dom (snd (getLab c t)) = insert (labKey t) (dom c)"
  by (auto simp: getLab_def Let_def split: option.splits)

section \<open>The scan returns a palette entry\<close>



lemma byteVal_range: "0 \<le> byteVal w \<and> byteVal w \<le> 255"
proof -
  have "unat w < 256" using unsigned_less[of w, where 'a=nat] by simp
  then have "unat w \<le> 255" by simp
  then have "real (unat w) \<le> real 255" by (simp only: of_nat_le_iff)
  moreover have "0 \<le> real (unat w)" by (rule of_nat_0_le_iff)
  ultimately show ?thesis by (simp add: byteVal_def)
qed





section \<open>Invariants of the quantizers\<close>

subsection \<open>Simple quantization\<close>




subsection \<open>The scan order and ordered dithering\<close>

lemma coords_Suc: "coords w (Suc h) = coords w h @ map (\<lambda>x. (x, h)) [0..<w]"
  by (simp add: coords_def)

lemma set_coords: "set (coords w h) = {(x, y). x < w \<and> y < h}"
  by (induction h) (auto simp: coords_Suc less_Suc_eq coords_def)

lemma map_index_coords: "map (\<lambda>(x, y). y * w + x) (coords w h) = [0..<w * h]"
proof (induction h)
  case 0
  then show ?case by (simp add: coords_def)
next
  case (Suc h)
  have "map (\<lambda>(x, y). y * w + x) (map (\<lambda>x. (x, h)) [0..<w]) = map (\<lambda>x. x + h * w) [0..<w]"
    by simp
  also have "\<dots> = [h * w..<w + h * w]" by (rule map_add_upt)
  finally have row: "map (\<lambda>(x, y). y * w + x) (map (\<lambda>x. (x, h)) [0..<w]) = [h * w..<w + h * w]" .
  have "[0..<h * w + w] = [0..<h * w] @ [h * w..<h * w + w]"
    using upt_add_eq_append[of 0 "h * w" w] by simp
  then have split: "[0..<w * Suc h] = [0..<w * h] @ [h * w..<w + h * w]"
    by (simp add: mult.commute add.commute)
  have "map (\<lambda>(x, y). y * w + x) (coords w (Suc h))
        = map (\<lambda>(x, y). y * w + x) (coords w h) @ map (\<lambda>(x, y). y * w + x) (map (\<lambda>x. (x, h)) [0..<w])"
    by (simp only: coords_Suc map_append)
  then show ?case by (simp only: Suc row split)
qed

lemma length_coords: "length (coords w h) = w * h"
  using arg_cong[OF map_index_coords[of w h], of length] by simp

lemma ditherThreshold_ok:
  "method \<in> orderedMethods \<Longrightarrow> \<exists>th d'. ditherThreshold rnd method x y d = Inr (th, d')"
  by (auto simp: orderedMethods_def ditherThreshold_def getBayerMatrix_def)


lemma clamp255_byte: "clamp255 (byteVal w) = byteVal w"
  using byteVal_range[of w] by (simp add: clamp255_def)




lemma coords_in_range:
  "\<forall>(x, y)\<in>set (coords w h). y * w + x < w * h"
proof -
  have "\<forall>j\<in>set (map (\<lambda>(x, y). y * w + x) (coords w h)). j < w * h"
    by (simp only: map_index_coords) simp
  then show ?thesis by auto
qed


subsection \<open>Error diffusion\<close>

lemma diffuseChannel_range: "0 \<le> diffuseChannel w e f \<and> diffuseChannel w e f \<le> 255"
  by (simp add: diffuseChannel_def)

lemma length_diffuse: "length (diffuse width height el nx ny err f wk) = length wk"
  by (simp add: diffuse_def Let_def)

lemma diffuse_received:
  "diffuse width height el nx ny err f wk =
     (if nx < 0 \<or> nx \<ge> int width \<or> ny < 0 \<or> ny \<ge> int height then wk
      else if \<not> el ! (nat ny * width + nat nx) then wk
      else wk[nat ny * width + nat nx := received (wk ! (nat ny * width + nat nx)) err f])"
  by (simp add: diffuse_def received_def Let_def)

lemma received_ok: "workCellOk c \<Longrightarrow> workCellOk (received c (Some e) f)"
  using diffuseChannel_range
  by (cases e) (auto simp: workCellOk_def received_def inByteRange_def split: option.splits)

lemma list_all_update:
  "list_all P xs \<Longrightarrow> (i < length xs \<Longrightarrow> P v) \<Longrightarrow> list_all P (xs[i := v])"
  by (cases "i < length xs") (auto simp: list_all_length nth_list_update)

lemma diffuse_ok:
  assumes "list_all workCellOk wk"
  shows "list_all workCellOk (diffuse width height el nx ny (Some e) f wk)"
proof -
  have "list_all workCellOk (wk[i := received (wk ! i) (Some e) f])" for i
    by (rule list_all_update[OF assms]) (use assms received_ok in \<open>auto simp: list_all_length\<close>)
  then show ?thesis using assms by (simp add: diffuse_received)
qed

lemma diffuseAll_ok:
  assumes "list_all workCellOk wk"
  shows "list_all workCellOk (diffuseAll width height el k x y (Some e) wk)
         \<and> length (diffuseAll width height el k x y (Some e) wk) = length wk"
proof -
  have "\<And>wk. list_all workCellOk wk \<Longrightarrow>
      list_all workCellOk (fold (\<lambda>ko. diffuse width height el (int x + dx ko) (int y + dy ko) (Some e)
                 (weight ko / divisor k)) offs wk)
      \<and> length (fold (\<lambda>ko. diffuse width height el (int x + dx ko) (int y + dy ko) (Some e)
                 (weight ko / divisor k)) offs wk) = length wk" for offs
    by (induction offs) (simp_all add: diffuse_ok length_diffuse)
  then show ?thesis using assms by (simp add: diffuseAll_def)
qed

lemma diffusePixel_work:
  assumes "list_all workCellOk (work s)" "y * width + x < length (work s)"
  shows "list_all workCellOk (work (diffusePixel width height el k palette opts (x, y) s))
         \<and> length (work (diffusePixel width height el k palette opts (x, y) s)) = length (work s)"
proof -
  let ?i = "y * width + x"
  obtain t where t: "work s ! ?i = Some t" "inByteRange t"
    using assms by (auto simp: list_all_length workCellOk_def split: option.splits)
  obtain nr ng nb c' where fc: "findClosestPaletteColor (labAfter s) (Some t) palette
      (algorithm opts) (enableChromaPenalty opts) (chromaPenaltyWeight opts) = ((nr, ng, nb), c')"
    by (cases "findClosestPaletteColor (labAfter s) (Some t) palette
      (algorithm opts) (enableChromaPenalty opts) (chromaPenaltyWeight opts)") auto
  show ?thesis
    using assms(1) t fc diffuseAll_ok[OF assms(1)]
    by (simp add: diffusePixel_def Let_def)
qed


lemma fold_diffusePixel_work:
  assumes "list_all workCellOk (work s)" "\<forall>(x, y)\<in>set L. y * width + x < length (work s)"
  shows "list_all workCellOk (work (fold (diffusePixel width height el k palette opts) L s))
         \<and> length (work (fold (diffusePixel width height el k palette opts) L s)) = length (work s)"
  using assms
proof (induction L arbitrary: s)
  case Nil
  then show ?case by simp
next
  case (Cons xy L)
  obtain x y where xy: "xy = (x, y)" by (cases xy) auto
  have i: "y * width + x < length (work s)" using Cons.prems(2) xy by auto
  note st = diffusePixel_work[OF Cons.prems(1) i, of height el k palette opts]
  have "list_all workCellOk (work (fold (diffusePixel width height el k palette opts) L
            (diffusePixel width height el k palette opts (x, y) s)))
         \<and> length (work (fold (diffusePixel width height el k palette opts) L
            (diffusePixel width height el k palette opts (x, y) s)))
           = length (work (diffusePixel width height el k palette opts (x, y) s))"
    by (rule Cons.IH) (use st Cons.prems in auto)
  then show ?case using st xy by simp
qed


lemma initWork_ok:
  assumes "n \<le> length d"
  shows "list_all workCellOk (initWork d n) \<and> length (initWork d n) = n"
  using assms byteVal_range
  by (auto simp: initWork_def list_all_length getPixel_def workCellOk_def inByteRange_def
           split: prod.splits)



subsection \<open>Ordered dithering returns, and at strength 0 is the plain quantizer\<close>





lemma quantizePixel_length: "length (data (quantizePixel pal opts i s)) = length (data s)"
  by (simp add: quantizePixel_def Let_def split: prod.splits)

lemma orderedPixel_strength0:
  assumes "method \<in> orderedMethods" "y * width + x < length (data s)"
  shows "\<exists>d'. orderedPixel rnd width pal method 0 opts (x, y) (s, d)
               = Inr (quantizePixel pal opts (y * width + x) s, d')"
proof -
  obtain th d1 where th: "ditherThreshold rnd method x y d = Inr (th, d1)"
    using ditherThreshold_ok[OF assms(1)] by blast
  obtain r g b a where px: "data s ! (y * width + x) = (r, g, b, a)"
    by (cases "data s ! (y * width + x)") auto
  show ?thesis
    using assms(2)
    by (simp add: orderedPixel_def quantizePixel_def th px getPixel_def Let_def clamp255_byte
             split: prod.splits)
qed

lemma orderedLoop_strength0:
  assumes "method \<in> orderedMethods" "\<forall>(x, y)\<in>set L. y * width + x < length (data s)"
  shows "\<exists>d'. orderedLoop (orderedPixel rnd width pal method 0 opts) L (s, d)
               = Inr (fold (quantizePixel pal opts) (map (\<lambda>(x, y). y * width + x) L) s, d')"
  using assms(2)
proof (induction L arbitrary: s d)
  case Nil
  then show ?case by simp
next
  case (Cons xy L)
  obtain x y where xy: "xy = (x, y)" by (cases xy) auto
  have i: "y * width + x < length (data s)" using Cons.prems xy by auto
  obtain d1 where st: "orderedPixel rnd width pal method 0 opts (x, y) (s, d)
               = Inr (quantizePixel pal opts (y * width + x) s, d1)"
    using orderedPixel_strength0[OF assms(1) i] by blast
  have "\<forall>(x', y')\<in>set L. y' * width + x' < length (data (quantizePixel pal opts (y * width + x) s))"
    using Cons.prems by (simp add: quantizePixel_length)
  from Cons.IH[OF this, of d1] show ?case using st xy by simp
qed

subsection \<open>The work buffer during the scan\<close>

lemma coords_nth:
  assumes "k < w * h"
  shows "coords w h ! k = (k mod w, k div w)"
proof -
  obtain x y where xy: "coords w h ! k = (x, y)" by (cases "coords w h ! k") auto
  have kl: "k < length (coords w h)" using assms by (simp add: length_coords)
  then have "(x, y) \<in> set (coords w h)" using xy by (metis nth_mem)
  then have x: "x < w" by (simp add: set_coords)
  have "map (\<lambda>(x, y). y * w + x) (coords w h) ! k = k"
    using assms by (simp only: map_index_coords) simp
  then have "y * w + x = k" using kl xy by simp
  then have "k mod w = x" "k div w = y" using x by auto
  then show ?thesis using xy by simp
qed

lemma diffusionBefore_Suc:
  assumes "k < width * height"
  shows "diffusionBefore cache imageData width height palette method opts (Suc k)
         = diffusePixel width height (initEligible imageData opts (width * height))
             (getDitherKernel method) palette opts (k mod width, k div width)
             (diffusionBefore cache imageData width height palette method opts k)"
proof -
  have "take (Suc k) (coords width height) = take k (coords width height) @ [(k mod width, k div width)]"
    using assms by (simp add: take_Suc_conv_app_nth length_coords coords_nth)
  then show ?thesis by (simp add: diffusionBefore_def)
qed

lemma diffusionBefore_work:
  assumes "length imageData = width * height"
  shows "list_all workCellOk (work (diffusionBefore cache imageData width height palette method opts k))
     \<and> length (work (diffusionBefore cache imageData width height palette method opts k)) = width * height"
proof -
  let ?ini = "\<lparr>data = initData imageData opts (width * height), totalValidPixels = 0,
        labAfter = cache, work = initWork imageData (width * height)\<rparr>"
  have w0: "list_all workCellOk (work ?ini)" "length (work ?ini) = width * height"
    using initWork_ok[of "width * height" imageData] assms by simp_all
  have "\<forall>(x, y)\<in>set (take k (coords width height)). y * width + x < length (work ?ini)"
    using coords_in_range[of width height] w0(2) by (auto dest: in_set_takeD)
  from fold_diffusePixel_work[OF w0(1) this] show ?thesis
    using w0(2) by (simp add: diffusionBefore_def)
qed

lemma diffuseChannel_saturates:
  "(255 \<le> w + e * f \<longrightarrow> diffuseChannel w e f = 255) \<and> (w + e * f \<le> 0 \<longrightarrow> diffuseChannel w e f = 0)"
  by (simp add: diffuseChannel_def)

subsection \<open>The kernel loop, cell by cell\<close>





section \<open>The dominant bucket\<close>

lemma count_two_le:
  "i \<noteq> j \<Longrightarrow> count_list xs i + count_list xs j \<le> length xs"
  by (induction xs) auto

lemma uint_count_succ:
  assumes "Suc n < 2 ^ 32"
  shows "uint ((of_nat n :: 32 word) + 1) = int n + 1"
proof -
  have "uint ((of_nat n :: 32 word) + 1) = uint (of_nat (Suc n) :: 32 word)"
    by (simp add: add.commute)
  also have "\<dots> = int (Suc n)"
    using assms by (simp add: uint_nat unat_of_nat del: of_nat_Suc)
  also have "\<dots> = int n + 1" by simp
  finally show ?thesis .
qed

lemma dominantScan_max:
  assumes "\<forall>i. counts i = of_nat (count_list P i)"
    and "length P + length R < 2 ^ 32"
    and "(P = [] \<and> bestCount = - 1)
         \<or> (P \<noteq> [] \<and> bestCount = int (count_list P bestIdx)
             \<and> (\<forall>i. count_list P i \<le> count_list P bestIdx))"
    and "P @ R \<noteq> []"
  shows "\<forall>i. count_list (P @ R) i \<le> count_list (P @ R) (dominantScan R counts bestIdx bestCount)"
  using assms
proof (induction R arbitrary: P counts bestIdx bestCount)
  case Nil
  then show ?case by auto
next
  case (Cons idx R)
  let ?c = "counts idx + 1"
  let ?P = "P @ [idx]"
  have n: "Suc (count_list P idx) < 2 ^ 32"
    using Cons.prems(2) count_le_length[of P idx] by simp
  have c: "uint ?c = int (count_list P idx) + 1"
    using Cons.prems(1) uint_count_succ[OF n] by simp
  have counts': "\<forall>i. (counts(idx := ?c)) i = of_nat (count_list ?P i)"
    using Cons.prems(1) by simp
  have len': "length ?P + length R < 2 ^ 32" using Cons.prems(2) by simp
  have ne: "?P @ R \<noteq> []" by simp
  have eq: "?P @ R = P @ idx # R" by simp
  show ?case
  proof (cases "uint ?c > bestCount")
    case True
    have best: "(?P = [] \<and> uint ?c = - 1)
         \<or> (?P \<noteq> [] \<and> uint ?c = int (count_list ?P idx)
             \<and> (\<forall>i. count_list ?P i \<le> count_list ?P idx))"
    proof -
      have "count_list ?P i \<le> count_list ?P idx" for i
      proof (cases "P = []")
        case True
        then show ?thesis by simp
      next
        case False
        then have "bestCount = int (count_list P bestIdx)" "count_list P i \<le> count_list P bestIdx"
          using Cons.prems(3) by auto
        then show ?thesis using True c by (cases "i = idx") auto
      qed
      then show ?thesis using c by simp
    qed
    have ds: "dominantScan (idx # R) counts bestIdx bestCount
              = dominantScan R (counts(idx := ?c)) idx (uint ?c)"
      using True by (simp add: Let_def)
    show ?thesis
      unfolding ds using Cons.IH[OF counts' len' best ne, unfolded eq] .
  next
    case False
    then have pne: "P \<noteq> []" using Cons.prems(3) c by auto
    then have b: "bestCount = int (count_list P bestIdx)" "\<forall>i. count_list P i \<le> count_list P bestIdx"
      using Cons.prems(3) by auto
    have neq: "bestIdx \<noteq> idx" using False c b by auto
    have best: "(?P = [] \<and> bestCount = - 1)
         \<or> (?P \<noteq> [] \<and> bestCount = int (count_list ?P bestIdx)
             \<and> (\<forall>i. count_list ?P i \<le> count_list ?P bestIdx))"
    proof -
      have "count_list ?P i \<le> count_list ?P bestIdx" for i
        using b neq False c by (cases "i = idx") (auto simp: le_Suc_eq)
      then show ?thesis using b neq by simp
    qed
    have ds: "dominantScan (idx # R) counts bestIdx bestCount
              = dominantScan R (counts(idx := ?c)) bestIdx bestCount"
      using False by (simp add: Let_def)
    show ?thesis
      unfolding ds using Cons.IH[OF counts' len' best ne, unfolded eq] .
  qed
qed

lemma dominantScan_majority:
  assumes "length L < 2 ^ 32" "length L < 2 * count_list L m"
  shows "dominantScan L (\<lambda>i. 0) 0 (- 1) = m"
proof (rule ccontr)
  let ?b = "dominantScan L (\<lambda>i. 0) 0 (- 1)"
  assume ne: "?b \<noteq> m"
  have "L \<noteq> []" using assms(2) by auto
  then have "\<forall>i. count_list ([] @ L) i \<le> count_list ([] @ L) ?b"
    by (intro dominantScan_max) (use assms(1) in auto)
  then have "count_list L m \<le> count_list L ?b" by simp
  moreover have "count_list L ?b + count_list L m \<le> length L" by (rule count_two_le[OF ne])
  ultimately show False using assms(2) by simp
qed

lemma bucket_of_colour:
  "hasRgb (r, g, b) px \<Longrightarrow> bucketIndex px = bucketIndex (Some (r, g, b, 0))"
  by (auto simp: hasRgb_def bucketIndex_def split: option.splits)

lemma count_bucket:
  "length (filter (hasRgb c) blk) \<le> count_list (map bucketIndex blk) (bucketIndex (Some (fst c, fst (snd c), snd (snd c), 0)))"
proof (induction blk)
  case Nil
  then show ?case by simp
next
  case (Cons px blk)
  obtain r g b where c: "c = (r, g, b)" by (cases c) auto
  show ?case using Cons bucket_of_colour[of r g b px] by (auto simp: c)
qed

lemma fifteen_mask: "(0xF :: 32 word) = mask 4"
  by (simp add: mask_eq_exp_minus_1)

lemma nib_r: "drop_bit 8 (push_bit 8 (ucast (drop_bit 4 (r::byte))) OR push_bit 4 (ucast (drop_bit 4 (g::byte))) OR (ucast (drop_bit 4 (b::byte)) :: 32 word)) AND 0xF = ucast (drop_bit 4 r)"
  unfolding fifteen_mask
  by (rule bit_word_eqI) (auto simp: bit_simps dest: bit_imp_le_length)

lemma nib_g: "drop_bit 4 (push_bit 8 (ucast (drop_bit 4 (r::byte))) OR push_bit 4 (ucast (drop_bit 4 (g::byte))) OR (ucast (drop_bit 4 (b::byte)) :: 32 word)) AND 0xF = ucast (drop_bit 4 g)"
  unfolding fifteen_mask
  by (rule bit_word_eqI) (auto simp: bit_simps dest: bit_imp_le_length)

lemma nib_b: "(push_bit 8 (ucast (drop_bit 4 (r::byte))) OR push_bit 4 (ucast (drop_bit 4 (g::byte))) OR (ucast (drop_bit 4 (b::byte)) :: 32 word)) AND 0xF = ucast (drop_bit 4 b)"
  unfolding fifteen_mask
  by (rule bit_word_eqI) (auto simp: bit_simps dest: bit_imp_le_length)

lemma clamp_small:
  fixes x :: byte
  assumes "uint x < 16"
  shows "clampByte (uint (ucast x :: 32 word) * 17) = x * 17"
proof -
  have "uint x mod 4294967296 = uint x" using assms by simp
  then have u: "uint (ucast x :: 32 word) = uint x"
    by (simp add: unsigned_ucast_eq take_bit_eq_mod)
  have a: "(word_of_int (uint x * 17) :: byte) = word_of_int (uint x) * word_of_int 17"
    by (simp only: wi_hom_mult)
  have b: "(word_of_int (uint x) :: byte) = x" by (rule word_of_int_uint)
  have c: "(word_of_int 17 :: byte) = 17" by (rule word_of_int_numeral)
  have w: "(word_of_int (uint x * 17) :: byte) = x * 17" unfolding a b c ..
  have "\<not> uint x * 17 < 0" "\<not> uint x * 17 > 255" using assms by simp_all
  then show ?thesis unfolding clampByte_def u by (simp only: if_False w)
qed

lemma clamp_nibble: "clampByte (uint (ucast (drop_bit 4 (r::byte)) :: 32 word) * 17) = drop_bit 4 r * 17"
proof -
  have "unat (drop_bit 4 r) = drop_bit 4 (unat r)" by (rule unat_drop_bit_eq)
  also have "\<dots> = unat r div 16" by (simp add: drop_bit_eq_div)
  finally have "unat (drop_bit 4 r) = unat r div 16" .
  moreover have "unat r < 256" using unsigned_less[of r, where 'a=nat] by simp
  ultimately have lt: "unat (drop_bit 4 r) < 16" by simp
  then have "uint (drop_bit 4 r) < 16" unfolding uint_nat by linarith
  then show ?thesis by (rule clamp_small)
qed

lemma dominantPixel_bucket:
  "dominantPixel (bucketIndex (Some (r, g, b, a))) = (drop_bit 4 r * 17, drop_bit 4 g * 17, drop_bit 4 b * 17, 255)"
  by (simp only: dominantPixel_def bucketIndex_def option.case prod.case nib_r nib_g nib_b
        clamp_nibble)

lemma index_lt:
  assumes "x < (w::nat)" "y < h"
  shows "y * w + x < w * h"
proof -
  have "y * w + x < y * w + w" using assms(1) by simp
  also have "\<dots> = (Suc y) * w" by simp
  also have "\<dots> \<le> h * w" using assms(2) by (intro mult_le_mono1) simp
  finally show ?thesis by (simp add: mult.commute)
qed

lemma coords_nth_xy:
  assumes "x < w" "y < h"
  shows "coords w h ! (y * w + x) = (x, y)"
  using coords_nth[OF index_lt[OF assms]] assms(1) by simp

section \<open>Properties of the matcher\<close>

subsection \<open>The scan returns the first entry with the lowest score\<close>


subsection \<open>The sRGB linearisation is one-to-one on bytes\<close>








subsection \<open>LAB and Oklab are one-to-one on byte colours\<close>








subsection \<open>HSV is one-to-one on byte colours\<close>





subsection \<open>Scores of byte colours\<close>













subsection \<open>The scan with a consistent cache\<close>







section \<open>Region simplification\<close>










































section \<open>Empty and missing palettes\<close>

text \<open>
  C3. With an empty or missing palette neither function fails. \<^verbatim>\<open>resolveColor\<close> returns
  the sentinel with a null id and the target colour, and leaves the caches alone;
  \<^verbatim>\<open>findClosestPaletteColor\<close> returns the fixed triple \<open>(0, 0, 0)\<close> whatever the
  target is, and leaves the LAB cache alone.
\<close>

theorem empty_palette_results:
  "resolveColor st targetRgb None opts = (\<lparr>resId = None, resRgb = targetRgb\<rparr>, st)
   \<and> resolveColor st targetRgb (Some []) opts = (\<lparr>resId = None, resRgb = targetRgb\<rparr>, st)
   \<and> findClosestPaletteColor cache t None alg pen w = ((0, 0, 0), cache)
   \<and> findClosestPaletteColor cache t (Some []) alg pen w = ((0, 0, 0), cache)"
  by (simp add: resolveColor_def findClosestPaletteColor_def sentinel_def)

text \<open>The triple returned by \<^verbatim>\<open>findClosestPaletteColor\<close> for the target
  \<open>(10, 20, 30)\<close> and an empty palette is not the target.\<close>

theorem findClosest_empty_not_echo:
  "rgbVal (fst (findClosestPaletteColor emptyLabCache (Some (10, 20, 30)) (Some []) ''lab''
                  False 0.15)) \<noteq> (10, 20, 30)"
  by (simp add: findClosestPaletteColor_def rgbVal_def byteVal_def)

section \<open>Quantized output\<close>



section \<open>Ordered dithering at strength 0\<close>

text \<open>
  C5. On a raster of \<open>width \<times> height\<close> pixels, ordered dithering with strength 0 and any
  of the methods \<^verbatim>\<open>bayer2\<close>, \<^verbatim>\<open>bayer4\<close>, \<^verbatim>\<open>bayer8\<close>, \<^verbatim>\<open>random\<close> returns what
  \<^verbatim>\<open>applySimpleQuantization\<close> returns for the same palette, options and cache: the same
  data and the same count of valid pixels, whatever the random draws are.
\<close>

theorem ordered_strength_zero:
  assumes "length imageData = width * height" and "method \<in> orderedMethods"
  shows "applyOrderedDither rnd cache imageData width height palette method 0 opts
         = Inr (applySimpleQuantization cache imageData width height palette opts)"
proof -
  let ?ini = "\<lparr>data = imageData, totalValidPixels = 0, labAfter = cache\<rparr>"
  have "\<forall>(x, y)\<in>set (coords width height). y * width + x < length (data ?ini)"
    using coords_in_range[of width height] assms(1) by simp
  from orderedLoop_strength0[OF assms(2) this, of rnd palette opts 0]
  obtain d' where "orderedLoop (orderedPixel rnd width palette method 0 opts) (coords width height)
      (?ini, 0) = Inr (fold (quantizePixel palette opts)
                         (map (\<lambda>(x, y). y * width + x) (coords width height)) ?ini, d')"
    by blast
  then show ?thesis
    by (simp add: applyOrderedDither_def applySimpleQuantization_def map_index_coords assms(1))
qed

theorem ordered_strength_zero_witness:
  "length [(10, 20, 30, 255) :: pixel] = 1 * 1 \<and> ''bayer4'' \<in> orderedMethods
   \<and> applyOrderedDither noRandom emptyLabCache [(10, 20, 30, 255)] 1 1
        (Some [(0, 0, 0), (255, 255, 255)]) ''bayer4'' 0 defaultOptions
      = Inr (applySimpleQuantization emptyLabCache [(10, 20, 30, 255)] 1 1
               (Some [(0, 0, 0), (255, 255, 255)]) defaultOptions)"
  using ordered_strength_zero[of "[(10, 20, 30, 255)]" 1 1 "''bayer4''" noRandom emptyLabCache
      "Some [(0, 0, 0), (255, 255, 255)]" defaultOptions]
  by (simp add: orderedMethods_def)

section \<open>The work buffer stays in range\<close>

text \<open>
  C10. In error diffusion on a raster of \<open>width \<times> height\<close> pixels, the \<open>k\<close>-th step of
  the scan is \<^verbatim>\<open>diffusePixel\<close> at \<open>(k mod width, k div width)\<close>, the cell it reads and
  hands to the matcher is a colour in \<open>[0, 255]\<^sup>3\<close>, and so is every cell of the work buffer
  after the step. Each value written by \<^verbatim>\<open>diffuse\<close> is clamped: a sum of 255 or more
  is stored as 255 and a sum of 0 or less as 0, the excess being lost.
\<close>

theorem work_buffer_clamped:
  assumes "length imageData = width * height" and "k < width * height"
  shows "diffusionBefore cache imageData width height palette method opts (Suc k)
         = diffusePixel width height (initEligible imageData opts (width * height))
             (getDitherKernel method) palette opts (k mod width, k div width)
             (diffusionBefore cache imageData width height palette method opts k)
     \<and> (\<exists>t. work (diffusionBefore cache imageData width height palette method opts k)
                ! (k div width * width + k mod width) = Some t \<and> inByteRange t)
     \<and> list_all workCellOk
          (work (diffusionBefore cache imageData width height palette method opts (Suc k)))
     \<and> (\<forall>w e f. 0 \<le> diffuseChannel w e f \<and> diffuseChannel w e f \<le> 255
                \<and> (255 \<le> w + e * f \<longrightarrow> diffuseChannel w e f = 255)
                \<and> (w + e * f \<le> 0 \<longrightarrow> diffuseChannel w e f = 0))"
proof -
  note wk = diffusionBefore_work[OF assms(1), of cache palette "method" opts k]
  have "workCellOk (work (diffusionBefore cache imageData width height palette method opts k) ! k)"
    using wk assms(2) by (simp add: list_all_length)
  then have "\<exists>t. work (diffusionBefore cache imageData width height palette method opts k) ! k = Some t
                 \<and> inByteRange t"
    by (cases "work (diffusionBefore cache imageData width height palette method opts k) ! k")
       (simp_all add: workCellOk_def)
  moreover have "k div width * width + k mod width = k" by simp
  ultimately show ?thesis
    using diffusionBefore_Suc[OF assms(2)]
      diffusionBefore_work[OF assms(1), of cache palette "method" opts "Suc k"]
      diffuseChannel_range diffuseChannel_saturates
    by simp
qed

theorem work_buffer_clamped_witness:
  "length [(10, 20, 30, 255) :: pixel, (200, 100, 0, 255)] = 2 * 1 \<and> (1::nat) < 2 * 1
   \<and> (\<exists>t. work (diffusionBefore emptyLabCache [(10, 20, 30, 255), (200, 100, 0, 255)] 2 1
                   (Some [(0, 0, 0), (255, 255, 255)]) ''floyd'' defaultOptions 1)
             ! (1 div 2 * 2 + 1 mod 2) = Some t \<and> inByteRange t)"
  using work_buffer_clamped[of "[(10, 20, 30, 255), (200, 100, 0, 255)]" 2 1 1 emptyLabCache
      "Some [(0, 0, 0), (255, 255, 255)]" "''floyd''" defaultOptions]
  by simp

section \<open>Cache sizes\<close>

lemma dom_getLabMany: "dom (getLabMany c ts) = dom c \<union> (\<lambda>t. labKey (Some (rgbVal t))) ` set ts"
  unfolding getLabMany_def
  by (induction ts arbitrary: c) (auto simp: dom_getLab)

lemma distinct_manyColors: "n \<le> 65536 \<Longrightarrow> distinct (manyColors n)"
proof -
  assume n: "n \<le> 65536"
  have "inj_on (\<lambda>k. (of_nat (k div 256) :: byte, of_nat (k mod 256) :: byte, 0::byte)) {0..<n}"
  proof (rule inj_onI)
    fix x y assume x: "x \<in> {0..<n}" and y: "y \<in> {0..<n}"
      and e: "(of_nat (x div 256) :: byte, of_nat (x mod 256) :: byte, 0::byte) = (of_nat (y div 256), of_nat (y mod 256), 0)"
    from e have "unat (of_nat (x div 256) :: byte) = unat (of_nat (y div 256) :: byte)"
      and "unat (of_nat (x mod 256) :: byte) = unat (of_nat (y mod 256) :: byte)" by simp_all
    moreover have "x div 256 < 256" "y div 256 < 256" using x y n by auto
    ultimately have "x div 256 = y div 256" "x mod 256 = y mod 256"
      by (simp_all add: unat_of_nat)
    then show "x = y" by (metis div_mult_mod_eq)
  qed
  then show ?thesis by (simp add: manyColors_def distinct_map)
qed

text \<open>
  C9. \<^verbatim>\<open>_getLab\<close> never clears or checks the size of the LAB cache: looking up the
  20001 distinct colours \<open>(k div 256, k mod 256, 0)\<close>, \<open>k = 0 .. 20000\<close>, from an empty
  cache leaves 20001 entries in it, more than the cap of 20000 that the last branch of
  \<^verbatim>\<open>resolveColor\<close> enforces on the match cache.
\<close>

theorem getLab_unbounded:
  "card (dom (getLabMany emptyLabCache (manyColors 20001))) = 20001"
proof -
  have d: "distinct (manyColors 20001)" by (rule distinct_manyColors) simp
  have "inj_on (\<lambda>t. labKey (Some (rgbVal t))) (set (manyColors 20001))"
    by (rule inj_onI) (rule labKey_inj)
  then have "card ((\<lambda>t. labKey (Some (rgbVal t))) ` set (manyColors 20001)) = card (set (manyColors 20001))"
    by (rule card_image)
  also have "\<dots> = length (manyColors 20001)" using d by (rule distinct_card)
  also have "\<dots> = 20001" by (simp add: manyColors_def)
  finally show ?thesis by (simp add: dom_getLabMany emptyLabCache_def)
qed

section \<open>Dropped error\<close>



section \<open>Dominant resampling of a block with a majority colour\<close>

text \<open>
  C6. When more than half of the pixels of a destination pixel's block have one colour,
  \<^verbatim>\<open>resampleDominant\<close> writes the representative colour of that colour's bucket (each
  channel is the high nibble of the majority colour times 17) with alpha 255. The block
  has fewer than \<open>2\<^sup>3\<^sup>2\<close> pixels, so that the counters do not wrap.
\<close>

theorem dominant_writes_representative:
  assumes "x < dstW" and "y < dstH"
    and "length (blockPixels srcData sw sh factor x y) < 2 ^ 32"
    and "strictMajority c (blockPixels srcData sw sh factor x y)"
  shows "resampleDominant srcData sw sh dstW dstH factor ! (y * dstW + x)
         = (case representative c of (r, g, b) \<Rightarrow> (r, g, b, 255))"
proof -
  obtain r g b where c: "c = (r, g, b)" by (cases c) auto
  let ?blk = "blockPixels srcData sw sh factor x y"
  let ?L = "map bucketIndex ?blk"
  have "length ?L < 2 * count_list ?L (bucketIndex (Some (r, g, b, 0)))"
    using assms(4) count_bucket[of c ?blk] by (simp add: strictMajority_def c)
  moreover have "length ?L < 2 ^ 32" using assms(3) by simp
  ultimately have "dominantScan ?L (\<lambda>i. 0) 0 (- 1) = bucketIndex (Some (r, g, b, 0))"
    by (intro dominantScan_majority)
  moreover have "resampleDominant srcData sw sh dstW dstH factor ! (y * dstW + x)
          = dominantPixel (dominantScan ?L (\<lambda>i. 0) 0 (- 1))"
    using index_lt[OF assms(1,2)] coords_nth_xy[OF assms(1,2)]
    by (simp add: resampleDominant_def length_coords)
  ultimately show ?thesis
    by (simp add: dominantPixel_bucket representative_def c)
qed

theorem dominant_writes_representative_witness:
  "(0::nat) < 1 \<and> (0::nat) < 1 \<and> length (blockPixels greyBlock 2 2 2 0 0) < 2 ^ 32
   \<and> strictMajority (100, 100, 100) (blockPixels greyBlock 2 2 2 0 0)
   \<and> resampleDominant greyBlock 2 2 1 1 2 ! (0 * 1 + 0) = (102, 102, 102, 255)"
proof -
  have "length (blockPixels greyBlock 2 2 2 0 0) = 4" by code_simp
  then have l: "length (blockPixels greyBlock 2 2 2 0 0) < 2 ^ 32" by simp
  have m: "strictMajority (100, 100, 100) (blockPixels greyBlock 2 2 2 0 0)" by code_simp
  have r: "(case representative (100, 100, 100) of (r, g, b) \<Rightarrow> (r, g, b, 255))
           = ((102, 102, 102, 255) :: pixel)" by code_simp
  show ?thesis
    using dominant_writes_representative[of 0 1 0 1 greyBlock 2 2 2 "(100, 100, 100)", OF _ _ l m]
      l m r by simp
qed

text \<open>The block of the 2 by 2 source has the strict majority colour \<open>(100, 100, 100)\<close>,
  and the destination pixel is not that colour.\<close>

theorem dominant_not_majority_colour:
  "strictMajority (100, 100, 100) (blockPixels greyBlock 2 2 2 0 0)
   \<and> resampleDominant greyBlock 2 2 1 1 2 ! 0 \<noteq> (100, 100, 100, 255)"
  by code_simp

section \<open>The LUV round trip of black\<close>

text \<open>
  C4. \<^verbatim>\<open>_rgbToLuv(0, 0, 0)\<close> is \<open>(0, 0, 0)\<close>, and \<^verbatim>\<open>_luvToRgb(0, 0, 0)\<close> divides
  zero by zero: the result is three \<^verbatim>\<open>NaN\<close>s, not a colour within 1 of black.
\<close>

theorem luv_round_trip_black:
  "rgbToLuv 0 0 0 = (0, 0, 0) \<and> luvToRgb 0 0 0 = (None, None, None)"
  by (simp add: rgbToLuv_def rgbToXyz_def srgbToLinear_def luvToRgb_def xyzToRgb_def
        linearToSrgb_def toChannel_def jsSub_def Let_def)

section \<open>Exact matches and ties\<close>




section \<open>Region simplification keeps the large components\<close>




end
